theory Spec2Isabelle
  imports Complex_Main
begin

section \<open>Values and errors of the Python run time\<close>

text \<open>
  The two notebooks compute with Python \<^verbatim>\<open>int\<close>, Python \<^verbatim>\<open>float\<close> and
  \<^verbatim>\<open>numpy.float64\<close>. Integers are modelled by \<open>int\<close>. A floating-point value is
  one of the special values of IEEE 754 or a finite number. Arithmetic on finite numbers is
  the arithmetic of the reals: rounding, overflow to infinity and the sign of zero are
  outside this model. What the model keeps is the part of IEEE 754 that the notebooks can
  observe without rounding: the special values, their propagation through \<open>+\<close>,
  \<open>*\<close>, \<open>/\<close> and \<open>>\<close>, and the difference between the division of Python
  (which raises on a zero divisor) and the division of numpy (which does not).
\<close>

datatype float = Finite real | PInf | NInf | NaN

text \<open>
  The exceptions the cells can raise: \<^verbatim>\<open>ZeroDivisionError\<close> from Python's \<open>/\<close>,
  \<^verbatim>\<open>ValueError\<close> from numpy when an array of negative size is requested.
  \<open>InvalidParameter\<close> is the error kind named by the specification; no cell of the
  notebooks raises it, it is part of the type so that statements about it can be written.
\<close>

datatype py_error = ZeroDivisionError | ValueError | InvalidParameter

text \<open>The infinity with the sign of a real number; \<open>NaN\<close> for zero.\<close>

definition signed_inf :: "real \<Rightarrow> float" where
  "signed_inf s = (if 0 < s then PInf else if s < 0 then NInf else NaN)"

fun fadd :: "float \<Rightarrow> float \<Rightarrow> float" where
  "fadd (Finite a) (Finite b) = Finite (a + b)"
| "fadd NaN y = NaN"
| "fadd x NaN = NaN"
| "fadd PInf NInf = NaN"
| "fadd NInf PInf = NaN"
| "fadd PInf y = PInf"
| "fadd x PInf = PInf"
| "fadd NInf y = NInf"
| "fadd x NInf = NInf"

fun fmul :: "float \<Rightarrow> float \<Rightarrow> float" where
  "fmul (Finite a) (Finite b) = Finite (a * b)"
| "fmul NaN y = NaN"
| "fmul x NaN = NaN"
| "fmul (Finite a) PInf = signed_inf a"
| "fmul (Finite a) NInf = signed_inf (- a)"
| "fmul PInf (Finite b) = signed_inf b"
| "fmul NInf (Finite b) = signed_inf (- b)"
| "fmul PInf PInf = PInf"
| "fmul PInf NInf = NInf"
| "fmul NInf PInf = NInf"
| "fmul NInf NInf = PInf"

text \<open>
  Division as numpy performs it on \<^verbatim>\<open>float64\<close> scalars and arrays: a zero divisor gives
  an infinity (or \<open>NaN\<close> for \<open>0 / 0\<close>) and a warning, never an exception. The model has
  one zero, the positive one.
\<close>

fun fdiv :: "float \<Rightarrow> float \<Rightarrow> float" where
  "fdiv (Finite a) (Finite b) = (if b = 0 then signed_inf a else Finite (a / b))"
| "fdiv NaN y = NaN"
| "fdiv x NaN = NaN"
| "fdiv (Finite a) PInf = Finite 0"
| "fdiv (Finite a) NInf = Finite 0"
| "fdiv PInf (Finite b) = (if b < 0 then NInf else PInf)"
| "fdiv NInf (Finite b) = (if b < 0 then PInf else NInf)"
| "fdiv PInf PInf = NaN"
| "fdiv PInf NInf = NaN"
| "fdiv NInf PInf = NaN"
| "fdiv NInf NInf = NaN"

text \<open>The comparison \<open>x > y\<close>: false as soon as one side is \<open>NaN\<close>.\<close>

fun fgt :: "float \<Rightarrow> float \<Rightarrow> bool" where
  "fgt (Finite a) (Finite b) = (b < a)"
| "fgt NaN y = False"
| "fgt x NaN = False"
| "fgt PInf PInf = False"
| "fgt PInf y = True"
| "fgt x PInf = False"
| "fgt NInf y = False"
| "fgt x NInf = True"

text \<open>\<^verbatim>\<open>x ** n\<close> for a positive literal exponent, \<^verbatim>\<open>numpy.sin\<close>, \<^verbatim>\<open>numpy.cos\<close>.\<close>

fun fpow :: "float \<Rightarrow> nat \<Rightarrow> float" where
  "fpow (Finite a) n = Finite (a ^ n)"
| "fpow PInf n = PInf"
| "fpow NInf n = (if even n then PInf else NInf)"
| "fpow NaN n = NaN"

fun fsin :: "float \<Rightarrow> float" where
  "fsin (Finite a) = Finite (sin a)"
| "fsin x = NaN"

fun fcos :: "float \<Rightarrow> float" where
  "fcos (Finite a) = Finite (cos a)"
| "fcos x = NaN"

text \<open>
  \<^verbatim>\<open>float(n)\<close> of a Python integer: the same number. (Python rounds it to the
  nearest double and raises \<^verbatim>\<open>OverflowError\<close> beyond the range of the doubles; both
  are outside the model.)
\<close>

definition float_of_int :: "int \<Rightarrow> float" where
  "float_of_int n = Finite (of_int n)"

text \<open>
  Python's own \<open>/\<close>, used when neither operand is a numpy value:
  \<^verbatim>\<open>ZeroDivisionError\<close> when the divisor is zero.
\<close>

definition py_truediv :: "float \<Rightarrow> float \<Rightarrow> py_error + float" where
  "py_truediv a b = (if b = Finite 0 then Inl ZeroDivisionError else Inr (fdiv a b))"

section \<open>The random generator\<close>

text \<open>
  Both notebooks draw from the process-wide generator of numpy; no cell seeds it. The
  generator is library code: it is a parameter of the model, a function that takes the
  two parameters of the distribution and the state of the generator and returns the value
  drawn and the next state. \<^verbatim>\<open>scipy.stats.norm(loc, scale).rvs()\<close> and
  \<^verbatim>\<open>numpy.random.uniform(low, high)\<close> both have this shape.
\<close>

type_synonym 'g sampler = "float \<Rightarrow> float \<Rightarrow> 'g \<Rightarrow> float \<times> 'g"

text \<open>
  A generator to run the model on: it replays a recorded list of draws, whatever the
  distribution asked for, and returns the first parameter once the list is used up.
\<close>

definition replay :: "float list sampler" where
  "replay loc scale tape = (case tape of [] \<Rightarrow> (loc, []) | v # vs \<Rightarrow> (v, vs))"

text \<open>\<^verbatim>\<open>for i in range(N): body\<close> on a state; \<open>range(N)\<close> is empty for \<open>N \<le> 0\<close>.\<close>

definition for_range :: "int \<Rightarrow> (nat \<Rightarrow> 's \<Rightarrow> 's) \<Rightarrow> 's \<Rightarrow> 's" where
  "for_range N body st = fold body [0..<nat N] st"

section \<open>The hoop-strength notebook\<close>

text \<open>
  \<^verbatim>\<open>
  def simulated_stress():
      P = 10
      radius = scipy.stats.norm(60, 60*0.05).rvs()
      W = scipy.stats.norm(4, 4*0.05).rvs()
      return P * radius / W

  def simulated_yield_strength():
      return scipy.stats.norm(200, 200*0.1).rvs()
  \<close>
  The two draws are numpy scalars, so the division is numpy's.
\<close>

definition simulated_stress :: "'g sampler \<Rightarrow> 'g \<Rightarrow> float \<times> 'g" where
  "simulated_stress norm_rvs g =
     (let P = Finite 10;
          (radius, g1) = norm_rvs (Finite 60) (fmul (Finite 60) (Finite 0.05)) g;
          (W, g2) = norm_rvs (Finite 4) (fmul (Finite 4) (Finite 0.05)) g1
      in (fdiv (fmul P radius) W, g2))"

definition simulated_yield_strength :: "'g sampler \<Rightarrow> 'g \<Rightarrow> float \<times> 'g" where
  "simulated_yield_strength norm_rvs g =
     norm_rvs (Finite 200) (fmul (Finite 200) (Finite 0.1)) g"

text \<open>
  The variables the simulation cell assigns. \<^verbatim>\<open>numpy.empty(N)\<close> returns an array of
  \<open>N\<close> cells with arbitrary content (here \<open>NaN\<close>); the loop writes cell \<open>i\<close> before it
  reads it. A negative \<open>N\<close> makes \<^verbatim>\<open>numpy.empty\<close> raise \<^verbatim>\<open>ValueError\<close>.
\<close>

record 'g simulation =
  failures :: int
  stresses :: "float list"
  yield_strengths :: "float list"
  rng :: 'g

definition numpy_empty :: "int \<Rightarrow> py_error + float list" where
  "numpy_empty N = (if N < 0 then Inl ValueError else Inr (replicate (nat N) NaN))"

text \<open>
  \<^verbatim>\<open>
  N = 10_000
  failures = 0
  stresses = numpy.empty(N)
  yield_strengths = numpy.empty(N)
  for i in range(N):
      stresses[i] = simulated_stress()
      yield_strengths[i] = simulated_yield_strength()
      if stresses[i] > yield_strengths[i]:
          failures += 1
  \<close>
\<close>

definition loop_body :: "'g sampler \<Rightarrow> nat \<Rightarrow> 'g simulation \<Rightarrow> 'g simulation" where
  "loop_body norm_rvs i st =
     (let (s, g1) = simulated_stress norm_rvs (rng st);
          st1 = st\<lparr>stresses := (stresses st)[i := s], rng := g1\<rparr>;
          (y, g2) = simulated_yield_strength norm_rvs (rng st1);
          st2 = st1\<lparr>yield_strengths := (yield_strengths st1)[i := y], rng := g2\<rparr>
      in if fgt (stresses st2 ! i) (yield_strengths st2 ! i)
         then st2\<lparr>failures := failures st2 + 1\<rparr>
         else st2)"

definition simulation_cell :: "'g sampler \<Rightarrow> int \<Rightarrow> 'g \<Rightarrow> py_error + 'g simulation" where
  "simulation_cell norm_rvs N g =
     (case numpy_empty N of
        Inl e \<Rightarrow> Inl e
      | Inr stresses0 \<Rightarrow>
          (case numpy_empty N of
             Inl e \<Rightarrow> Inl e
           | Inr yield_strengths0 \<Rightarrow>
               Inr (for_range N (loop_body norm_rvs)
                      \<lparr>failures = 0, stresses = stresses0,
                       yield_strengths = yield_strengths0, rng = g\<rparr>)))"

text \<open>
  \<^verbatim>\<open>
  # the probability of failure
  failures / float(N)
  \<close>
  Both operands are Python numbers: the division is Python's.
\<close>

definition probability_cell :: "int \<Rightarrow> int \<Rightarrow> py_error + float" where
  "probability_cell fails N = py_truediv (float_of_int fails) (float_of_int N)"

text \<open>
  A run of the failure-probability experiment: the simulation cell, then the probability
  cell. The result is the probability, with the state the process-wide generator is left
  in: the next run draws from there.
\<close>

definition failure_probability_experiment ::
  "'g sampler \<Rightarrow> int \<Rightarrow> 'g \<Rightarrow> py_error + (float \<times> 'g)" where
  "failure_probability_experiment norm_rvs N g =
     (case simulation_cell norm_rvs N g of
        Inl e \<Rightarrow> Inl e
      | Inr st \<Rightarrow>
          (case probability_cell (failures st) N of
             Inl e \<Rightarrow> Inl e
           | Inr p \<Rightarrow> Inr (p, rng st)))"

text \<open>
  The vectorized cell of the same notebook:
  \<^verbatim>\<open>
  N = 10_000
  P = 10
  radius = scipy.stats.norm(60, 60*0.05).rvs(N)
  W = scipy.stats.norm(4, 4*0.05).rvs(N)
  yield_strength = scipy.stats.norm(200, 200*0.1).rvs(N)
  # sum() adds the items in the vector which are not False
  ((P * radius / W) > yield_strength).sum() / float(N)
  \<close>
  \<^verbatim>\<open>rvs(N)\<close> fills an array with \<open>N\<close> successive draws and raises
  \<^verbatim>\<open>ValueError\<close> for a negative size. The arithmetic and the comparison work element
  by element, \<^verbatim>\<open>sum()\<close> counts the \<^verbatim>\<open>True\<close> entries, and the division is numpy's.
\<close>

fun draw_many :: "'g sampler \<Rightarrow> float \<Rightarrow> float \<Rightarrow> nat \<Rightarrow> 'g \<Rightarrow> float list \<times> 'g" where
  "draw_many norm_rvs loc scale 0 g = ([], g)"
| "draw_many norm_rvs loc scale (Suc n) g =
     (let (v, g1) = norm_rvs loc scale g;
          (vs, g2) = draw_many norm_rvs loc scale n g1
      in (v # vs, g2))"

definition rvs_size ::
  "'g sampler \<Rightarrow> float \<Rightarrow> float \<Rightarrow> int \<Rightarrow> 'g \<Rightarrow> py_error + (float list \<times> 'g)" where
  "rvs_size norm_rvs loc scale N g =
     (if N < 0 then Inl ValueError else Inr (draw_many norm_rvs loc scale (nat N) g))"

definition vectorized_probability ::
  "int \<Rightarrow> float list \<Rightarrow> float list \<Rightarrow> float list \<Rightarrow> float" where
  "vectorized_probability N radius W yield_strength =
     (let P = Finite 10;
          stress = map2 (\<lambda>r w. fdiv (fmul P r) w) radius W;
          failed = map2 fgt stress yield_strength
      in fdiv (float_of_int (int (length (filter (\<lambda>b. b) failed)))) (float_of_int N))"

definition vectorized_cell :: "'g sampler \<Rightarrow> int \<Rightarrow> 'g \<Rightarrow> py_error + (float \<times> 'g)" where
  "vectorized_cell norm_rvs N g =
     (case rvs_size norm_rvs (Finite 60) (fmul (Finite 60) (Finite 0.05)) N g of
        Inl e \<Rightarrow> Inl e
      | Inr (radius, g1) \<Rightarrow>
          (case rvs_size norm_rvs (Finite 4) (fmul (Finite 4) (Finite 0.05)) N g1 of
             Inl e \<Rightarrow> Inl e
           | Inr (W, g2) \<Rightarrow>
               (case rvs_size norm_rvs (Finite 200) (fmul (Finite 200) (Finite 0.1)) N g2 of
                  Inl e \<Rightarrow> Inl e
                | Inr (yield_strength, g3) \<Rightarrow>
                    Inr (vectorized_probability N radius W yield_strength, g3))))"

section \<open>The integration notebook\<close>

text \<open>
  Each Monte Carlo cell keeps a running sum \<^verbatim>\<open>accum\<close> and draws from the generator.
  \<^verbatim>\<open>accum\<close> starts as the Python integer \<open>0\<close>. The last line of each cell is
  \<^verbatim>\<open>measure * accum/float(N)\<close>, which Python reads as
  \<^verbatim>\<open>(measure * accum) / float(N)\<close>. When \<open>N\<close> is zero the loop has not run,
  \<^verbatim>\<open>accum\<close> is still a Python number and the division is Python's, which raises; when
  the loop has run the divisor is not zero, and the divisions of Python and of numpy agree.
\<close>

record 'g integration =
  accum :: float
  generator :: 'g

text \<open>
  \<^verbatim>\<open>
  N = 100_000
  accum = 0
  for i in range(N):
      x = numpy.random.uniform(1, 5)
      accum += x**2
  measure = 5 - 1
  measure * accum/float(N)
  \<close>
\<close>

definition first_body :: "'g sampler \<Rightarrow> nat \<Rightarrow> 'g integration \<Rightarrow> 'g integration" where
  "first_body uniform i st =
     (let (x, g1) = uniform (Finite 1) (Finite 5) (generator st)
      in \<lparr>accum = fadd (accum st) (fpow x 2), generator = g1\<rparr>)"

definition first_integral :: "'g sampler \<Rightarrow> int \<Rightarrow> 'g \<Rightarrow> py_error + (float \<times> 'g)" where
  "first_integral uniform N g =
     (let st = for_range N (first_body uniform) \<lparr>accum = Finite 0, generator = g\<rparr>;
          measure = Finite (5 - 1)
      in case py_truediv (fmul measure (accum st)) (float_of_int N) of
           Inl e \<Rightarrow> Inl e
         | Inr v \<Rightarrow> Inr (v, generator st))"

text \<open>
  \<^verbatim>\<open>
  N = 100_000
  accum = 0
  for i in range(N):
      x = numpy.random.uniform(2, 3)
      accum += x**2 + 4*x*numpy.sin(x)
  measure = 3 - 2
  measure * accum/float(N)
  \<close>
\<close>

definition second_body :: "'g sampler \<Rightarrow> nat \<Rightarrow> 'g integration \<Rightarrow> 'g integration" where
  "second_body uniform i st =
     (let (x, g1) = uniform (Finite 2) (Finite 3) (generator st)
      in \<lparr>accum = fadd (accum st) (fadd (fpow x 2) (fmul (fmul (Finite 4) x) (fsin x))),
          generator = g1\<rparr>)"

definition second_integral :: "'g sampler \<Rightarrow> int \<Rightarrow> 'g \<Rightarrow> py_error + (float \<times> 'g)" where
  "second_integral uniform N g =
     (let st = for_range N (second_body uniform) \<lparr>accum = Finite 0, generator = g\<rparr>;
          measure = Finite (3 - 2)
      in case py_truediv (fmul measure (accum st)) (float_of_int N) of
           Inl e \<Rightarrow> Inl e
         | Inr v \<Rightarrow> Inr (v, generator st))"

text \<open>
  \<^verbatim>\<open>
  N = 100_000
  accum = 0
  for i in range(N):
      x = numpy.random.uniform(4, 6)
      y = numpy.random.uniform(0, 1)
      accum += numpy.cos(x**4) + 3 * y * y
  measure = 2 * 1
  measure * accum/float(N)
  \<close>
\<close>

definition body_2d :: "'g sampler \<Rightarrow> nat \<Rightarrow> 'g integration \<Rightarrow> 'g integration" where
  "body_2d uniform i st =
     (let (x, g1) = uniform (Finite 4) (Finite 6) (generator st);
          (y, g2) = uniform (Finite 0) (Finite 1) g1
      in \<lparr>accum = fadd (accum st) (fadd (fcos (fpow x 4)) (fmul (fmul (Finite 3) y) y)),
          generator = g2\<rparr>)"

definition integral_2d :: "'g sampler \<Rightarrow> int \<Rightarrow> 'g \<Rightarrow> py_error + (float \<times> 'g)" where
  "integral_2d uniform N g =
     (let st = for_range N (body_2d uniform) \<lparr>accum = Finite 0, generator = g\<rparr>;
          measure = Finite (2 * 1)
      in case py_truediv (fmul measure (accum st)) (float_of_int N) of
           Inl e \<Rightarrow> Inl e
         | Inr v \<Rightarrow> Inr (v, generator st))"

section \<open>The trials of a run, as lists\<close>

text \<open>
  To state what the loops compute, the values a run draws are collected in lists. One
  trial of the failure experiment draws a radius, a wall thickness and a yield strength,
  in this order; \<open>rng_after k\<close> is the generator after \<open>k\<close> trials.
\<close>

definition trial_draws :: "'g sampler \<Rightarrow> 'g \<Rightarrow> (float \<times> float \<times> float) \<times> 'g" where
  "trial_draws norm_rvs g =
     (let (radius, g1) = norm_rvs (Finite 60) (fmul (Finite 60) (Finite 0.05)) g;
          (W, g2) = norm_rvs (Finite 4) (fmul (Finite 4) (Finite 0.05)) g1;
          (y, g3) = norm_rvs (Finite 200) (fmul (Finite 200) (Finite 0.1)) g2
      in ((radius, W, y), g3))"

fun rng_after :: "'g sampler \<Rightarrow> nat \<Rightarrow> 'g \<Rightarrow> 'g" where
  "rng_after norm_rvs 0 g = g"
| "rng_after norm_rvs (Suc k) g = snd (trial_draws norm_rvs (rng_after norm_rvs k g))"

definition draws_of_run :: "'g sampler \<Rightarrow> nat \<Rightarrow> 'g \<Rightarrow> (float \<times> float \<times> float) list" where
  "draws_of_run norm_rvs n g =
     map (\<lambda>k. fst (trial_draws norm_rvs (rng_after norm_rvs k g))) [0..<n]"

text \<open>The stress and the strength of a trial, from its three draws.\<close>

definition trial_output :: "float \<times> float \<times> float \<Rightarrow> float \<times> float" where
  "trial_output d = (case d of (radius, W, y) \<Rightarrow> (fdiv (fmul (Finite 10) radius) W, y))"

definition trial_outputs :: "'g sampler \<Rightarrow> nat \<Rightarrow> 'g \<Rightarrow> (float \<times> float) list" where
  "trial_outputs norm_rvs n g = map trial_output (draws_of_run norm_rvs n g)"

text \<open>The trials in which the stress is strictly greater than the strength.\<close>

definition count_failures :: "(float \<times> float) list \<Rightarrow> int" where
  "count_failures ts = int (length (filter (\<lambda>(stress, strength). fgt stress strength) ts))"

text \<open>The state of the simulation cell after its first \<open>k\<close> iterations.\<close>

definition after_iterations :: "'g sampler \<Rightarrow> int \<Rightarrow> 'g \<Rightarrow> nat \<Rightarrow> 'g simulation" where
  "after_iterations norm_rvs N g k =
     fold (loop_body norm_rvs) [0..<k]
       \<lparr>failures = 0, stresses = replicate (nat N) NaN,
        yield_strengths = replicate (nat N) NaN, rng = g\<rparr>"

text \<open>
  The points an integration loop samples: \<open>n\<close> successive applications of \<open>draw\<close>, and the
  generator they leave. The float sum of a list runs from left to right, from \<open>0\<close>, as the
  loops do.
\<close>

fun points :: "('g \<Rightarrow> 'p \<times> 'g) \<Rightarrow> nat \<Rightarrow> 'g \<Rightarrow> 'p list" where
  "points draw 0 g = []"
| "points draw (Suc n) g = (case draw g of (p, g1) \<Rightarrow> p # points draw n g1)"

fun generator_after :: "('g \<Rightarrow> 'p \<times> 'g) \<Rightarrow> nat \<Rightarrow> 'g \<Rightarrow> 'g" where
  "generator_after draw 0 g = g"
| "generator_after draw (Suc n) g = generator_after draw n (snd (draw g))"

definition fsum :: "float list \<Rightarrow> float" where
  "fsum xs = foldl fadd (Finite 0) xs"

definition draw_xy :: "'g sampler \<Rightarrow> 'g \<Rightarrow> (float \<times> float) \<times> 'g" where
  "draw_xy uniform g =
     (let (x, g1) = uniform (Finite 4) (Finite 6) g;
          (y, g2) = uniform (Finite 0) (Finite 1) g1
      in ((x, y), g2))"

text \<open>
  The measure of an integration domain as the specification words it: the product of the
  lengths of the intervals, one interval per sampled dimension.
\<close>

definition domain_measure :: "(real \<times> real) list \<Rightarrow> real" where
  "domain_measure bounds = prod_list (map (\<lambda>(low, high). high - low) bounds)"

section \<open>What the simulation loop computes\<close>

lemmas hoop_defs =
  failure_probability_experiment_def simulation_cell_def numpy_empty_def for_range_def
  loop_body_def simulated_stress_def simulated_yield_strength_def replay_def
  probability_cell_def py_truediv_def float_of_int_def signed_inf_def Let_def

lemmas integration_defs =
  first_integral_def first_body_def second_integral_def second_body_def
  integral_2d_def body_2d_def for_range_def replay_def py_truediv_def float_of_int_def
  signed_inf_def Let_def

text \<open>One iteration, written on the three draws of the trial.\<close>

lemma loop_body_step:
  assumes "k < length (stresses st)" "k < length (yield_strengths st)"
  shows "loop_body norm_rvs k st =
     (let d = fst (trial_draws norm_rvs (rng st));
          s = fst (trial_output d); y = snd (trial_output d)
      in \<lparr>failures = failures st + (if fgt s y then 1 else 0),
          stresses = (stresses st)[k := s],
          yield_strengths = (yield_strengths st)[k := y],
          rng = snd (trial_draws norm_rvs (rng st))\<rparr>)"
  using assms
  by (simp add: loop_body_def trial_draws_def trial_output_def simulated_stress_def
      simulated_yield_strength_def Let_def split_beta)

lemma draws_of_run_Suc:
  "draws_of_run norm_rvs (Suc k) g =
     draws_of_run norm_rvs k g @ [fst (trial_draws norm_rvs (rng_after norm_rvs k g))]"
  by (simp add: draws_of_run_def)

lemma trial_outputs_Suc:
  "trial_outputs norm_rvs (Suc k) g =
     trial_outputs norm_rvs k g @
       [trial_output (fst (trial_draws norm_rvs (rng_after norm_rvs k g)))]"
  by (simp add: trial_outputs_def draws_of_run_Suc)

lemma after_iterations_Suc:
  "after_iterations norm_rvs N g (Suc k) =
     loop_body norm_rvs k (after_iterations norm_rvs N g k)"
  by (simp add: after_iterations_def)

text \<open>
  The invariant of the loop: after \<open>k\<close> iterations the generator has served \<open>k\<close> trials,
  the first \<open>k\<close> cells of the two arrays hold their outputs, and \<open>failures\<close> counts the
  trials among them whose stress is greater than the strength.
\<close>

lemma after_iterations_inv:
  "k \<le> nat N \<Longrightarrow>
     rng (after_iterations norm_rvs N g k) = rng_after norm_rvs k g \<and>
     length (stresses (after_iterations norm_rvs N g k)) = nat N \<and>
     length (yield_strengths (after_iterations norm_rvs N g k)) = nat N \<and>
     take k (stresses (after_iterations norm_rvs N g k)) =
       map fst (trial_outputs norm_rvs k g) \<and>
     take k (yield_strengths (after_iterations norm_rvs N g k)) =
       map snd (trial_outputs norm_rvs k g) \<and>
     failures (after_iterations norm_rvs N g k) = count_failures (trial_outputs norm_rvs k g)"
proof (induction k)
  case 0
  show ?case
    by (simp add: after_iterations_def trial_outputs_def draws_of_run_def count_failures_def)
next
  case (Suc k)
  let ?st = "after_iterations norm_rvs N g k"
  from Suc have k: "k < nat N" and IH:
    "rng ?st = rng_after norm_rvs k g"
    "length (stresses ?st) = nat N"
    "length (yield_strengths ?st) = nat N"
    "take k (stresses ?st) = map fst (trial_outputs norm_rvs k g)"
    "take k (yield_strengths ?st) = map snd (trial_outputs norm_rvs k g)"
    "failures ?st = count_failures (trial_outputs norm_rvs k g)"
    by simp_all
  have step: "after_iterations norm_rvs N g (Suc k) = loop_body norm_rvs k ?st"
    by (rule after_iterations_Suc)
  show ?case
    unfolding step
    using k IH
    by (simp add: loop_body_step Let_def trial_outputs_Suc take_Suc_conv_app_nth
        count_failures_def split_beta)
qed

lemma simulation_cell_eq:
  "0 \<le> N \<Longrightarrow>
     simulation_cell norm_rvs N g = Inr (after_iterations norm_rvs N g (nat N))"
  by (simp add: simulation_cell_def numpy_empty_def for_range_def after_iterations_def)

lemma final_arrays:
  "stresses (after_iterations norm_rvs N g (nat N)) =
     map fst (trial_outputs norm_rvs (nat N) g)"
  "yield_strengths (after_iterations norm_rvs N g (nat N)) =
     map snd (trial_outputs norm_rvs (nat N) g)"
  using after_iterations_inv [of "nat N" N norm_rvs g] by (auto dest: sym[of "take _ _"])

lemma length_trial_outputs [simp]: "length (trial_outputs norm_rvs n g) = n"
  by (simp add: trial_outputs_def draws_of_run_def)

lemma length_draws_of_run [simp]: "length (draws_of_run norm_rvs n g) = n"
  by (simp add: draws_of_run_def)

lemma count_failures_bounds:
  "0 \<le> count_failures ts \<and> count_failures ts \<le> int (length ts)"
  by (simp add: count_failures_def)

lemma count_failures_card:
  "count_failures ts = int (card {i. i < length ts \<and> fgt (fst (ts ! i)) (snd (ts ! i))})"
  by (simp add: count_failures_def length_filter_conv_card split_beta)

lemma experiment_eq:
  "0 < N \<Longrightarrow> failure_probability_experiment norm_rvs N g =
     Inr (Finite (real_of_int (count_failures (trial_outputs norm_rvs (nat N) g)) /
                  real_of_int N),
          rng_after norm_rvs (nat N) g)"
  using after_iterations_inv [of "nat N" N norm_rvs g]
  by (simp add: failure_probability_experiment_def simulation_cell_eq probability_cell_def
      py_truediv_def float_of_int_def)

lemma fgt_irrefl: "\<not> fgt x x"
  by (cases x) simp_all

lemma tie_not_counted:
  assumes "i < nat N"
    and "fst (trial_outputs norm_rvs (nat N) g ! i) =
         snd (trial_outputs norm_rvs (nat N) g ! i)"
  shows "failures (after_iterations norm_rvs N g (Suc i)) =
         failures (after_iterations norm_rvs N g i)"
proof -
  have nth: "trial_outputs norm_rvs (nat N) g ! i =
      trial_output (fst (trial_draws norm_rvs (rng_after norm_rvs i g)))"
    using assms(1) by (simp add: trial_outputs_def draws_of_run_def)
  from assms(1) have "Suc i \<le> nat N" "i \<le> nat N" by simp_all
  then show ?thesis
    using after_iterations_inv [of "Suc i" N norm_rvs g]
      after_iterations_inv [of i N norm_rvs g] assms(2) fgt_irrefl
    by (simp add: trial_outputs_Suc count_failures_def nth split_beta)
qed

section \<open>The failure probability\<close>

text \<open>
  Claim C1. A run of the failure-probability experiment with \<open>N\<close> trials ends the
  simulation cell in a state \<open>st\<close> whose arrays hold the stress and the strength of
  every trial and in which \<open>failures\<close> is the number of trials \<open>i\<close> whose stress is
  strictly greater than the strength; the probability it reports is
  \<open>failures / float(N)\<close> in the division of floating-point numbers, the quotient of
  the two numbers and not the integer quotient; and a trial whose stress equals its
  strength leaves \<open>failures\<close> as it was.
\<close>

theorem failure_probability_is_count_over_N:
  assumes "0 < N"
  shows "\<exists>st. simulation_cell norm_rvs N g = Inr st \<and>
           stresses st = map fst (trial_outputs norm_rvs (nat N) g) \<and>
           yield_strengths st = map snd (trial_outputs norm_rvs (nat N) g) \<and>
           failures st =
             int (card {i. i < nat N \<and> fgt (stresses st ! i) (yield_strengths st ! i)}) \<and>
           failure_probability_experiment norm_rvs N g =
             Inr (fdiv (float_of_int (failures st)) (float_of_int N), rng st) \<and>
           fdiv (float_of_int (failures st)) (float_of_int N) =
             Finite (real_of_int (failures st) / real_of_int N) \<and>
           (\<forall>i<nat N. stresses st ! i = yield_strengths st ! i \<longrightarrow>
              failures (after_iterations norm_rvs N g (Suc i)) =
              failures (after_iterations norm_rvs N g i))"
proof -
  let ?st = "after_iterations norm_rvs N g (nat N)"
  let ?ts = "trial_outputs norm_rvs (nat N) g"
  have inv: "rng ?st = rng_after norm_rvs (nat N) g" "failures ?st = count_failures ?ts"
    using after_iterations_inv [of "nat N" N norm_rvs g] by simp_all
  have cell: "simulation_cell norm_rvs N g = Inr ?st"
    using assms by (simp add: simulation_cell_eq)
  have arrays: "stresses ?st = map fst ?ts" "yield_strengths ?st = map snd ?ts"
    by (rule final_arrays)+
  have card: "failures ?st =
      int (card {i. i < nat N \<and> fgt (stresses ?st ! i) (yield_strengths ?st ! i)})"
    by (simp add: inv count_failures_card final_arrays cong: conj_cong)
  have quot: "fdiv (float_of_int (failures ?st)) (float_of_int N) =
      Finite (real_of_int (failures ?st) / real_of_int N)"
    using assms by (simp add: float_of_int_def)
  have run: "failure_probability_experiment norm_rvs N g =
      Inr (fdiv (float_of_int (failures ?st)) (float_of_int N), rng ?st)"
    using assms by (simp add: experiment_eq inv float_of_int_def)
  have ties: "\<forall>i<nat N. stresses ?st ! i = yield_strengths ?st ! i \<longrightarrow>
      failures (after_iterations norm_rvs N g (Suc i)) =
      failures (after_iterations norm_rvs N g i)"
    by (simp add: final_arrays tie_not_counted)
  from cell arrays card run quot ties show ?thesis by blast
qed

text \<open>
  Two trials: the first is a tie (stress \<open>10 * 60 / 4 = 150\<close>, strength \<open>150\<close>), the
  second a failure (stress \<open>300\<close>, strength \<open>200\<close>). One failure in two trials is
  \<open>1 / 2\<close>; the integer quotient is \<open>0\<close>.
\<close>

theorem failure_probability_is_count_over_N_witness:
  "(0::int) < 2 \<and>
   simulation_cell replay 2
     [Finite 60, Finite 4, Finite 150, Finite 60, Finite 2, Finite 200] =
     Inr \<lparr>failures = 1, stresses = [Finite 150, Finite 300],
          yield_strengths = [Finite 150, Finite 200], rng = []\<rparr> \<and>
   failure_probability_experiment replay 2
     [Finite 60, Finite 4, Finite 150, Finite 60, Finite 2, Finite 200] =
     Inr (Finite (1 / 2), []) \<and>
   Finite (1 / 2) \<noteq> float_of_int (1 div 2) \<and>
   failures (after_iterations replay 2
     [Finite 60, Finite 4, Finite 150, Finite 60, Finite 2, Finite 200] (Suc 0)) =
   failures (after_iterations replay 2
     [Finite 60, Finite 4, Finite 150, Finite 60, Finite 2, Finite 200] 0)"
proof -
  let ?tape = "[Finite 60, Finite 4, Finite 150, Finite 60, Finite 2, Finite 200]"
  have pos: "(0::int) < 2" by simp
  have cell: "simulation_cell replay 2 ?tape =
      Inr \<lparr>failures = 1, stresses = [Finite 150, Finite 300],
           yield_strengths = [Finite 150, Finite 200], rng = []\<rparr>"
    by (simp add: hoop_defs eval_nat_numeral upt_rec)
  from failure_probability_is_count_over_N [OF pos, of replay ?tape]
  obtain st where st: "simulation_cell replay 2 ?tape = Inr st"
    and run: "failure_probability_experiment replay 2 ?tape =
      Inr (fdiv (float_of_int (failures st)) (float_of_int 2), rng st)"
    and ties: "\<forall>i<nat 2. stresses st ! i = yield_strengths st ! i \<longrightarrow>
      failures (after_iterations replay 2 ?tape (Suc i)) =
      failures (after_iterations replay 2 ?tape i)"
    by blast
  from st cell have eq: "st = \<lparr>failures = 1, stresses = [Finite 150, Finite 300],
      yield_strengths = [Finite 150, Finite 200], rng = []\<rparr>"
    by simp
  from run have "failure_probability_experiment replay 2 ?tape = Inr (Finite (1 / 2), [])"
    unfolding eq by (simp add: float_of_int_def)
  moreover from ties have "failures (after_iterations replay 2 ?tape (Suc 0)) =
      failures (after_iterations replay 2 ?tape 0)"
    unfolding eq by simp
  ultimately show ?thesis using pos cell by (simp add: float_of_int_def)
qed

text \<open>
  Claim C3. In a run of the failure-probability experiment with \<open>N > 0\<close> trials the
  probability reported is a number of the interval \<open>[0, 1]\<close>, and after each of the
  iterations of the loop \<open>failures\<close> lies between \<open>0\<close> and the number of trials done
  so far.
\<close>

theorem probability_in_unit_interval:
  assumes "0 < N"
  shows "(\<exists>p g'. failure_probability_experiment norm_rvs N g = Inr (Finite p, g') \<and>
            0 \<le> p \<and> p \<le> 1) \<and>
         (\<forall>k\<le>nat N. 0 \<le> failures (after_iterations norm_rvs N g k) \<and>
            failures (after_iterations norm_rvs N g k) \<le> int k)"
proof
  let ?c = "count_failures (trial_outputs norm_rvs (nat N) g)"
  have "0 \<le> ?c" "?c \<le> N"
    using count_failures_bounds [of "trial_outputs norm_rvs (nat N) g"] assms by simp_all
  then have "0 \<le> real_of_int ?c / real_of_int N" "real_of_int ?c / real_of_int N \<le> 1"
    using assms by simp_all
  then show "\<exists>p g'. failure_probability_experiment norm_rvs N g = Inr (Finite p, g') \<and>
      0 \<le> p \<and> p \<le> 1"
    using assms by (simp add: experiment_eq)
next
  show "\<forall>k\<le>nat N. 0 \<le> failures (after_iterations norm_rvs N g k) \<and>
      failures (after_iterations norm_rvs N g k) \<le> int k"
  proof (intro allI impI)
    fix k assume "k \<le> nat N"
    then have "failures (after_iterations norm_rvs N g k) =
        count_failures (trial_outputs norm_rvs k g)"
      using after_iterations_inv [of k N norm_rvs g] by simp
    then show "0 \<le> failures (after_iterations norm_rvs N g k) \<and>
        failures (after_iterations norm_rvs N g k) \<le> int k"
      using count_failures_bounds [of "trial_outputs norm_rvs k g"] by simp
  qed
qed

text \<open>Three trials with stresses \<open>150\<close>, \<open>220\<close>, \<open>142.5\<close>: one failure, the second.\<close>

theorem probability_in_unit_interval_witness:
  "(0::int) < 3 \<and>
   failure_probability_experiment replay 3
     [Finite 60, Finite 4, Finite 200, Finite 66, Finite 3, Finite 210,
      Finite 57, Finite 4, Finite 190] = Inr (Finite (1 / 3), []) \<and>
   (0::real) \<le> 1 / 3 \<and> (1::real) / 3 \<le> 1 \<and>
   (2::nat) \<le> nat 3 \<and>
   failures (after_iterations replay 3
     [Finite 60, Finite 4, Finite 200, Finite 66, Finite 3, Finite 210,
      Finite 57, Finite 4, Finite 190] 2) = 1 \<and>
   (1::int) \<le> int 2"
proof -
  let ?tape = "[Finite 60, Finite 4, Finite 200, Finite 66, Finite 3, Finite 210,
      Finite 57, Finite 4, Finite 190]"
  have pos: "(0::int) < 3" by simp
  have run: "failure_probability_experiment replay 3 ?tape = Inr (Finite (1 / 3), [])"
    by (simp add: hoop_defs eval_nat_numeral upt_rec)
  have two: "failures (after_iterations replay 3 ?tape 2) = 1"
    by (simp add: after_iterations_def hoop_defs eval_nat_numeral upt_rec)
  from probability_in_unit_interval [OF pos, of replay ?tape] run two
  show ?thesis by simp
qed

section \<open>The hoop-stress evaluator\<close>

text \<open>
  Claim C4. \<open>simulated_stress\<close> draws a radius and then a wall thickness, and returns
  \<open>P * radius / W\<close> for the constant pressure \<open>P = 10\<close>, which is not drawn: the
  generator is left as the two draws leave it. On finite numbers with a wall thickness
  other than zero this is the number \<open>10 * r / w\<close>.
\<close>

theorem simulated_stress_formula:
  assumes "norm_rvs (Finite 60) (fmul (Finite 60) (Finite 0.05)) g = (radius, g1)"
    and "norm_rvs (Finite 4) (fmul (Finite 4) (Finite 0.05)) g1 = (W, g2)"
  shows "simulated_stress norm_rvs g = (fdiv (fmul (Finite 10) radius) W, g2) \<and>
         (\<forall>r w. radius = Finite r \<and> W = Finite w \<and> w \<noteq> 0 \<longrightarrow>
            fst (simulated_stress norm_rvs g) = Finite (10 * r / w))"
  using assms by (simp add: simulated_stress_def)

theorem simulated_stress_formula_witness:
  "replay (Finite 60) (fmul (Finite 60) (Finite 0.05)) [Finite 63, Finite 4.2] =
     (Finite 63, [Finite 4.2]) \<and>
   replay (Finite 4) (fmul (Finite 4) (Finite 0.05)) [Finite 4.2] = (Finite 4.2, []) \<and>
   (4.2::real) \<noteq> 0 \<and>
   simulated_stress replay [Finite 63, Finite 4.2] = (Finite 150, [])"
proof -
  have d1: "replay (Finite 60) (fmul (Finite 60) (Finite 0.05)) [Finite 63, Finite 4.2] =
     (Finite 63, [Finite 4.2])"
    by (simp add: replay_def)
  have d2: "replay (Finite 4) (fmul (Finite 4) (Finite 0.05)) [Finite 4.2] = (Finite 4.2, [])"
    by (simp add: replay_def)
  from simulated_stress_formula [of replay "[Finite 63, Finite 4.2]" "Finite 63"
      "[Finite 4.2]" "Finite 4.2" "[]", OF d1 d2] d1 d2
  show ?thesis by simp
qed

section \<open>A wall thickness of zero\<close>

lemma simulated_stress_trial_output:
  "fst (simulated_stress norm_rvs g) = fst (trial_output (fst (trial_draws norm_rvs g)))"
  by (simp add: simulated_stress_def trial_draws_def trial_output_def split_beta)

lemma failure_counted:
  assumes "i < nat N"
    and "fgt (fst (trial_outputs norm_rvs (nat N) g ! i))
             (snd (trial_outputs norm_rvs (nat N) g ! i))"
  shows "failures (after_iterations norm_rvs N g (Suc i)) =
         failures (after_iterations norm_rvs N g i) + 1"
proof -
  have nth: "trial_outputs norm_rvs (nat N) g ! i =
      trial_output (fst (trial_draws norm_rvs (rng_after norm_rvs i g)))"
    using assms(1) by (simp add: trial_outputs_def draws_of_run_def)
  from assms(1) have "Suc i \<le> nat N" "i \<le> nat N" by simp_all
  then show ?thesis
    using after_iterations_inv [of "Suc i" N norm_rvs g]
      after_iterations_inv [of i N norm_rvs g] assms(2)
    by (simp add: trial_outputs_Suc count_failures_def nth split_beta)
qed

text \<open>
  Claim C9. When trial \<open>k\<close> of a run draws a wall thickness of exactly zero (with a
  positive finite radius and a finite yield strength), \<open>simulated_stress\<close> returns
  \<open>+Infinity\<close> and raises nothing; the comparison with the finite strength is true and
  the trial is counted as a failure; the simulation cell still ends normally with both
  arrays of length \<open>N\<close> and the generator after \<open>N\<close> trials, and the run reports a
  finite probability.
\<close>

theorem zero_wall_thickness_gives_infinity:
  assumes "k < nat N"
    and "draws_of_run norm_rvs (nat N) g ! k = (Finite r, Finite 0, Finite y)"
    and "0 < r"
  shows "\<exists>st p. fst (simulated_stress norm_rvs (rng_after norm_rvs k g)) = PInf \<and>
           simulation_cell norm_rvs N g = Inr st \<and>
           stresses st ! k = PInf \<and>
           fgt (stresses st ! k) (yield_strengths st ! k) \<and>
           failures (after_iterations norm_rvs N g (Suc k)) =
             failures (after_iterations norm_rvs N g k) + 1 \<and>
           length (stresses st) = nat N \<and> length (yield_strengths st) = nat N \<and>
           rng st = rng_after norm_rvs (nat N) g \<and>
           failure_probability_experiment norm_rvs N g = Inr (Finite p, rng st)"
proof -
  let ?st = "after_iterations norm_rvs N g (nat N)"
  from assms(1) have pos: "0 < N" by simp
  have draws: "fst (trial_draws norm_rvs (rng_after norm_rvs k g)) =
      (Finite r, Finite 0, Finite y)"
    using assms(1,2) by (simp add: draws_of_run_def)
  have ev: "fst (simulated_stress norm_rvs (rng_after norm_rvs k g)) = PInf"
    using assms(3) by (simp add: simulated_stress_trial_output draws trial_output_def
        signed_inf_def)
  have out: "trial_outputs norm_rvs (nat N) g ! k = (PInf, Finite y)"
    using assms by (simp add: trial_outputs_def trial_output_def signed_inf_def)
  have cell: "simulation_cell norm_rvs N g = Inr ?st"
    using pos by (simp add: simulation_cell_eq)
  have s: "stresses ?st ! k = PInf" and y: "yield_strengths ?st ! k = Finite y"
    using assms(1) out by (simp_all add: final_arrays)
  have gt: "fgt (stresses ?st ! k) (yield_strengths ?st ! k)"
    by (simp add: s y)
  have cnt: "failures (after_iterations norm_rvs N g (Suc k)) =
      failures (after_iterations norm_rvs N g k) + 1"
    using assms(1) out by (simp add: failure_counted)
  have len: "length (stresses ?st) = nat N" "length (yield_strengths ?st) = nat N"
    "rng ?st = rng_after norm_rvs (nat N) g"
    using after_iterations_inv [of "nat N" N norm_rvs g] by simp_all
  have run: "failure_probability_experiment norm_rvs N g =
      Inr (Finite (real_of_int (count_failures (trial_outputs norm_rvs (nat N) g)) /
             real_of_int N), rng ?st)"
    using pos by (simp add: experiment_eq len)
  from ev cell s gt cnt len run show ?thesis by blast
qed

text \<open>Two trials, the second with a wall thickness of zero.\<close>

theorem zero_wall_thickness_gives_infinity_witness:
  "(1::nat) < nat 2 \<and>
   draws_of_run replay (nat 2)
     [Finite 60, Finite 4, Finite 200, Finite 60, Finite 0, Finite 200] ! 1 =
     (Finite 60, Finite 0, Finite 200) \<and>
   (0::real) < 60 \<and>
   simulation_cell replay 2
     [Finite 60, Finite 4, Finite 200, Finite 60, Finite 0, Finite 200] =
     Inr \<lparr>failures = 1, stresses = [Finite 150, PInf],
          yield_strengths = [Finite 200, Finite 200], rng = []\<rparr> \<and>
   failure_probability_experiment replay 2
     [Finite 60, Finite 4, Finite 200, Finite 60, Finite 0, Finite 200] =
     Inr (Finite (1 / 2), [])"
proof -
  let ?tape = "[Finite 60, Finite 4, Finite 200, Finite 60, Finite 0, Finite 200]"
  have k: "(1::nat) < nat 2" by simp
  have d: "draws_of_run replay (nat 2) ?tape ! 1 = (Finite 60, Finite 0, Finite 200)"
    by (simp add: draws_of_run_def trial_draws_def replay_def eval_nat_numeral upt_rec)
  have r: "(0::real) < 60" by simp
  have cell: "simulation_cell replay 2 ?tape =
      Inr \<lparr>failures = 1, stresses = [Finite 150, PInf],
           yield_strengths = [Finite 200, Finite 200], rng = []\<rparr>"
    by (simp add: hoop_defs eval_nat_numeral upt_rec)
  have run: "failure_probability_experiment replay 2 ?tape = Inr (Finite (1 / 2), [])"
    by (simp add: hoop_defs eval_nat_numeral upt_rec)
  from zero_wall_thickness_gives_infinity [OF k d r] k d r cell run
  show ?thesis by simp
qed

section \<open>Repeated runs and the generator\<close>

lemma experiment_negative:
  "N < 0 \<Longrightarrow> failure_probability_experiment norm_rvs N g = Inl ValueError"
  by (simp add: failure_probability_experiment_def simulation_cell_def numpy_empty_def)

lemma experiment_zero:
  "failure_probability_experiment norm_rvs 0 g = Inl ZeroDivisionError"
  by (simp add: hoop_defs)

text \<open>
  Claim C5, as the code has it. The notebook takes no seed and draws from the
  process-wide generator. What a run reports is a function of \<open>N\<close> and of the \<open>3 * N\<close>
  values it draws: two runs that draw the same values report the same, whatever the
  generators; and a run leaves the generator in the state after \<open>N\<close> trials, where the
  next run starts.
\<close>

theorem result_determined_by_draws:
  assumes "draws_of_run rvs (nat N) g = draws_of_run rvs' (nat N) g'"
  shows "map_sum id fst (failure_probability_experiment rvs N g) =
         map_sum id fst (failure_probability_experiment rvs' N g') \<and>
         (\<forall>p g1. failure_probability_experiment rvs N g = Inr (p, g1) \<longrightarrow>
            g1 = rng_after rvs (nat N) g)"
proof -
  consider "N < 0" | "N = 0" | "0 < N" by linarith
  then show ?thesis
  proof cases
    case 1
    then show ?thesis by (simp add: experiment_negative)
  next
    case 2
    then show ?thesis by (simp add: experiment_zero)
  next
    case 3
    then show ?thesis using assms by (simp add: experiment_eq trial_outputs_def)
  qed
qed

theorem result_determined_by_draws_witness:
  "draws_of_run replay (nat 1) [Finite 60, Finite 2, Finite 200, Finite 57] =
     draws_of_run replay (nat 1) [Finite 60, Finite 2, Finite 200] \<and>
   map_sum id fst (failure_probability_experiment replay 1
     [Finite 60, Finite 2, Finite 200, Finite 57]) = Inr (Finite 1) \<and>
   map_sum id fst (failure_probability_experiment replay 1
     [Finite 60, Finite 2, Finite 200]) = Inr (Finite 1) \<and>
   failure_probability_experiment replay 1 [Finite 60, Finite 2, Finite 200, Finite 57] =
     Inr (Finite 1, [Finite 57]) \<and>
   rng_after replay (nat 1) [Finite 60, Finite 2, Finite 200, Finite 57] = [Finite 57]"
proof -
  have d: "draws_of_run replay (nat 1) [Finite 60, Finite 2, Finite 200, Finite 57] =
     draws_of_run replay (nat 1) [Finite 60, Finite 2, Finite 200]"
    by (simp add: draws_of_run_def trial_draws_def replay_def)
  have run: "failure_probability_experiment replay 1
      [Finite 60, Finite 2, Finite 200, Finite 57] = Inr (Finite 1, [Finite 57])"
    by (simp add: hoop_defs)
  from result_determined_by_draws [OF d] d run show ?thesis by simp
qed

text \<open>
  Claim C5, as stated, fails: a run of one trial is invoked twice in a row with the same
  configuration. The first invocation reports \<open>0\<close> and leaves the generator three draws
  further; the second, starting there, reports \<open>1\<close>.
\<close>

theorem repeated_runs_differ:
  "failure_probability_experiment replay 1
     [Finite 60, Finite 4, Finite 200, Finite 60, Finite 2, Finite 200] =
     Inr (Finite 0, [Finite 60, Finite 2, Finite 200]) \<and>
   failure_probability_experiment replay 1 [Finite 60, Finite 2, Finite 200] =
     Inr (Finite 1, []) \<and>
   Finite 0 \<noteq> Finite 1"
  by (simp add: hoop_defs)

section \<open>The loop and the vectorized computation\<close>

lemma vectorized_count:
  "length (filter (\<lambda>b. b)
     (map2 fgt (map2 (\<lambda>r w. fdiv (fmul (Finite 10) r) w) (map fst ds) (map (fst \<circ> snd) ds))
        (map (snd \<circ> snd) ds))) =
   length (filter (\<lambda>(stress, strength). fgt stress strength) (map trial_output ds))"
  by (induction ds) (simp_all add: trial_output_def split_beta)

lemma length_draw_many:
  "length (fst (draw_many norm_rvs loc scale n g)) = n"
  by (induction n arbitrary: g) (simp_all add: split_beta)

lemma vectorized_cell_eq:
  assumes "0 \<le> N"
  shows "\<exists>radius W yield_strength g'.
     vectorized_cell norm_rvs N g =
       Inr (vectorized_probability N radius W yield_strength, g') \<and>
     length radius = nat N \<and> length W = nat N \<and> length yield_strength = nat N"
proof -
  let ?r = "draw_many norm_rvs (Finite 60) (fmul (Finite 60) (Finite 0.05)) (nat N) g"
  let ?w = "draw_many norm_rvs (Finite 4) (fmul (Finite 4) (Finite 0.05)) (nat N) (snd ?r)"
  let ?y = "draw_many norm_rvs (Finite 200) (fmul (Finite 200) (Finite 0.1)) (nat N) (snd ?w)"
  have "vectorized_cell norm_rvs N g =
      Inr (vectorized_probability N (fst ?r) (fst ?w) (fst ?y), snd ?y)"
    using assms by (simp add: vectorized_cell_def rvs_size_def split_beta)
  moreover have "length (fst ?r) = nat N" "length (fst ?w) = nat N" "length (fst ?y) = nat N"
    by (rule length_draw_many)+
  ultimately show ?thesis by blast
qed

text \<open>
  Claim C6. For \<open>N > 0\<close> trials, the loop, which aggregates in a single pass with a
  running count, reports the number that the last line of the vectorized cell
  computes from the same \<open>N\<close> trials laid out as three arrays (radius, wall thickness,
  yield strength); and that last line is what the vectorized cell reports for the three
  arrays of length \<open>N\<close> it draws. The count is an integer, so no order of summation
  enters.
\<close>

theorem loop_and_vectorized_agree:
  assumes "0 < N"
  shows "(\<exists>g'. failure_probability_experiment norm_rvs N g =
            Inr (vectorized_probability N
                   (map fst (draws_of_run norm_rvs (nat N) g))
                   (map (fst \<circ> snd) (draws_of_run norm_rvs (nat N) g))
                   (map (snd \<circ> snd) (draws_of_run norm_rvs (nat N) g)), g')) \<and>
         (\<exists>radius W yield_strength h'.
            vectorized_cell norm_rvs N h =
              Inr (vectorized_probability N radius W yield_strength, h') \<and>
            length radius = nat N \<and> length W = nat N \<and> length yield_strength = nat N)"
proof
  have "vectorized_probability N
          (map fst (draws_of_run norm_rvs (nat N) g))
          (map (fst \<circ> snd) (draws_of_run norm_rvs (nat N) g))
          (map (snd \<circ> snd) (draws_of_run norm_rvs (nat N) g)) =
        Finite (real_of_int (count_failures (trial_outputs norm_rvs (nat N) g)) /
                real_of_int N)"
    unfolding vectorized_probability_def Let_def vectorized_count
    using assms by (simp add: count_failures_def trial_outputs_def float_of_int_def)
  then show "\<exists>g'. failure_probability_experiment norm_rvs N g =
            Inr (vectorized_probability N
                   (map fst (draws_of_run norm_rvs (nat N) g))
                   (map (fst \<circ> snd) (draws_of_run norm_rvs (nat N) g))
                   (map (snd \<circ> snd) (draws_of_run norm_rvs (nat N) g)), g')"
    using assms by (simp add: experiment_eq)
next
  show "\<exists>radius W yield_strength h'.
            vectorized_cell norm_rvs N h =
              Inr (vectorized_probability N radius W yield_strength, h') \<and>
            length radius = nat N \<and> length W = nat N \<and> length yield_strength = nat N"
    using assms vectorized_cell_eq [of N norm_rvs h] by simp
qed

text \<open>
  The same two trials, drawn trial by trial by the loop and array by array by the
  vectorized cell.
\<close>

theorem loop_and_vectorized_agree_witness:
  "(0::int) < 2 \<and>
   failure_probability_experiment replay 2
     [Finite 60, Finite 4, Finite 200, Finite 66, Finite 3, Finite 210] =
     Inr (Finite (1 / 2), []) \<and>
   draws_of_run replay (nat 2)
     [Finite 60, Finite 4, Finite 200, Finite 66, Finite 3, Finite 210] =
     [(Finite 60, Finite 4, Finite 200), (Finite 66, Finite 3, Finite 210)] \<and>
   vectorized_probability 2 [Finite 60, Finite 66] [Finite 4, Finite 3]
     [Finite 200, Finite 210] = Finite (1 / 2) \<and>
   vectorized_cell replay 2
     [Finite 60, Finite 66, Finite 4, Finite 3, Finite 200, Finite 210] =
     Inr (Finite (1 / 2), [])"
proof -
  let ?tape = "[Finite 60, Finite 4, Finite 200, Finite 66, Finite 3, Finite 210]"
  have pos: "(0::int) < 2" by simp
  have d: "draws_of_run replay (nat 2) ?tape =
     [(Finite 60, Finite 4, Finite 200), (Finite 66, Finite 3, Finite 210)]"
    by (simp add: draws_of_run_def trial_draws_def replay_def eval_nat_numeral upt_rec)
  have v: "vectorized_cell replay 2
     [Finite 60, Finite 66, Finite 4, Finite 3, Finite 200, Finite 210] =
     Inr (Finite (1 / 2), [])"
    by (simp add: vectorized_cell_def rvs_size_def vectorized_probability_def hoop_defs
        eval_nat_numeral)
  have run: "failure_probability_experiment replay 2 ?tape = Inr (Finite (1 / 2), [])"
    by (simp add: hoop_defs eval_nat_numeral upt_rec)
  from loop_and_vectorized_agree [OF pos, of replay ?tape, THEN conjunct1]
  obtain g' where "failure_probability_experiment replay 2 ?tape =
      Inr (vectorized_probability 2
             (map fst (draws_of_run replay (nat 2) ?tape))
             (map (fst \<circ> snd) (draws_of_run replay (nat 2) ?tape))
             (map (snd \<circ> snd) (draws_of_run replay (nat 2) ?tape)), g')"
    by blast
  then have "failure_probability_experiment replay 2 ?tape =
      Inr (vectorized_probability 2 [Finite 60, Finite 66] [Finite 4, Finite 3]
             [Finite 200, Finite 210], g')"
    unfolding d by simp
  with run have "vectorized_probability 2 [Finite 60, Finite 66] [Finite 4, Finite 3]
      [Finite 200, Finite 210] = Finite (1 / 2)"
    by simp
  with pos d v run show ?thesis by simp
qed

section \<open>What the integration loops compute\<close>

text \<open>
  A loop whose body adds \<open>f\<close> of a fresh draw to \<open>accum\<close> ends with the float sum,
  from left to right, of \<open>f\<close> over the points drawn.
\<close>

lemma fold_running_sum:
  assumes "\<And>i st. body i st =
      \<lparr>accum = fadd (accum st) (f (fst (draw (generator st)))),
       generator = snd (draw (generator st))\<rparr>"
  shows "fold body js \<lparr>accum = a, generator = g\<rparr> =
      \<lparr>accum = foldl fadd a (map f (points draw (length js) g)),
       generator = generator_after draw (length js) g\<rparr>"
proof (induction js arbitrary: a g)
  case Nil
  show ?case by simp
next
  case (Cons j js)
  have step: "body j \<lparr>accum = a, generator = g\<rparr> =
      \<lparr>accum = fadd a (f (fst (draw g))), generator = snd (draw g)\<rparr>"
    by (simp add: assms)
  have "fold body (j # js) \<lparr>accum = a, generator = g\<rparr> =
      fold body js (body j \<lparr>accum = a, generator = g\<rparr>)"
    by simp
  also have "\<dots> = \<lparr>accum = foldl fadd (fadd a (f (fst (draw g))))
        (map f (points draw (length js) (snd (draw g)))),
      generator = generator_after draw (length js) (snd (draw g))\<rparr>"
    unfolding step by (rule Cons.IH)
  finally show ?case
    by (simp add: split_beta)
qed

lemma for_range_running_sum:
  assumes "\<And>i st. body i st =
      \<lparr>accum = fadd (accum st) (f (fst (draw (generator st)))),
       generator = snd (draw (generator st))\<rparr>"
  shows "for_range N body \<lparr>accum = Finite 0, generator = g\<rparr> =
      \<lparr>accum = fsum (map f (points draw (nat N) g)),
       generator = generator_after draw (nat N) g\<rparr>"
  by (simp add: for_range_def fsum_def fold_running_sum [of body f draw, OF assms])

lemma length_points [simp]: "length (points draw n g) = n"
  by (induction n arbitrary: g) (simp_all add: split_beta)

lemma py_truediv_float_of_int:
  "0 < N \<Longrightarrow> py_truediv a (float_of_int N) = Inr (fdiv a (float_of_int N))"
  by (simp add: py_truediv_def float_of_int_def)

text \<open>The three cells, with the last line as Python reads it.\<close>

lemma first_integral_eq:
  "0 < N \<Longrightarrow> first_integral uniform N g =
     Inr (fdiv (fmul (Finite 4)
                  (fsum (map (\<lambda>x. fpow x 2)
                     (points (uniform (Finite 1) (Finite 5)) (nat N) g))))
            (float_of_int N),
          generator_after (uniform (Finite 1) (Finite 5)) (nat N) g)"
  by (simp add: first_integral_def Let_def py_truediv_float_of_int
      for_range_running_sum [of "first_body uniform" "\<lambda>x. fpow x 2"
        "uniform (Finite 1) (Finite 5)"]
      first_body_def split_beta)

lemma second_integral_eq:
  "0 < N \<Longrightarrow> second_integral uniform N g =
     Inr (fdiv (fmul (Finite 1)
                  (fsum (map (\<lambda>x. fadd (fpow x 2) (fmul (fmul (Finite 4) x) (fsin x)))
                     (points (uniform (Finite 2) (Finite 3)) (nat N) g))))
            (float_of_int N),
          generator_after (uniform (Finite 2) (Finite 3)) (nat N) g)"
  by (simp add: second_integral_def Let_def py_truediv_float_of_int
      for_range_running_sum [of "second_body uniform"
        "\<lambda>x. fadd (fpow x 2) (fmul (fmul (Finite 4) x) (fsin x))"
        "uniform (Finite 2) (Finite 3)"]
      second_body_def split_beta)

lemma integral_2d_eq:
  "0 < N \<Longrightarrow> integral_2d uniform N g =
     Inr (fdiv (fmul (Finite 2)
                  (fsum (map (\<lambda>(x, y). fadd (fcos (fpow x 4)) (fmul (fmul (Finite 3) y) y))
                     (points (draw_xy uniform) (nat N) g))))
            (float_of_int N),
          generator_after (draw_xy uniform) (nat N) g)"
  by (simp add: integral_2d_def Let_def py_truediv_float_of_int
      for_range_running_sum [of "body_2d uniform"
        "\<lambda>(x, y). fadd (fcos (fpow x 4)) (fmul (fmul (Finite 3) y) y)" "draw_xy uniform"]
      body_2d_def draw_xy_def split_beta)

text \<open>
  Multiplying by a positive finite measure before or after the division by \<open>N\<close> gives
  the same value, also when the sum is infinite or \<open>NaN\<close>.
\<close>

lemma fdiv_fmul_assoc:
  "0 < m \<Longrightarrow> 0 < n \<Longrightarrow>
     fdiv (fmul (Finite m) s) (Finite n) = fmul (Finite m) (fdiv s (Finite n))"
  by (cases s) (simp_all add: signed_inf_def)

lemma scaled_mean:
  "0 < m \<Longrightarrow> 0 < N \<Longrightarrow>
     fdiv (fmul (Finite m) s) (float_of_int N) = fmul (Finite m) (fdiv s (float_of_int N))"
  by (simp add: float_of_int_def fdiv_fmul_assoc)

section \<open>The integral estimates\<close>

text \<open>
  Claim C2. For \<open>N > 0\<close> each integration cell reports
  \<open>domainMeasure * (sum / N)\<close>, where \<open>sum\<close> is the float sum of the integrand over the
  \<open>N\<close> points drawn and the measure is the product of the lengths of the intervals
  sampled: \<open>5 - 1\<close> for \<open>[1, 5]\<close>, \<open>3 - 2\<close> for \<open>[2, 3]\<close> and
  \<open>(6 - 4) * (1 - 0)\<close> for \<open>[4, 6] \<times> [0, 1]\<close>.
\<close>

theorem integral_estimate_is_measure_times_mean:
  assumes "0 < N"
  shows "first_integral uniform N g =
           Inr (fmul (Finite (domain_measure [(1, 5)]))
                  (fdiv (fsum (map (\<lambda>x. fpow x 2)
                           (points (uniform (Finite 1) (Finite 5)) (nat N) g)))
                     (float_of_int N)),
                generator_after (uniform (Finite 1) (Finite 5)) (nat N) g) \<and>
         second_integral uniform N g =
           Inr (fmul (Finite (domain_measure [(2, 3)]))
                  (fdiv (fsum (map (\<lambda>x. fadd (fpow x 2) (fmul (fmul (Finite 4) x) (fsin x)))
                           (points (uniform (Finite 2) (Finite 3)) (nat N) g)))
                     (float_of_int N)),
                generator_after (uniform (Finite 2) (Finite 3)) (nat N) g) \<and>
         integral_2d uniform N g =
           Inr (fmul (Finite (domain_measure [(4, 6), (0, 1)]))
                  (fdiv (fsum (map (\<lambda>(x, y). fadd (fcos (fpow x 4))
                                             (fmul (fmul (Finite 3) y) y))
                           (points (draw_xy uniform) (nat N) g)))
                     (float_of_int N)),
                generator_after (draw_xy uniform) (nat N) g) \<and>
         domain_measure [(1, 5)] = 5 - 1 \<and> domain_measure [(2, 3)] = 3 - 2 \<and>
         domain_measure [(4, 6), (0, 1)] = (6 - 4) * (1 - 0) \<and>
         length (points (uniform (Finite 1) (Finite 5)) (nat N) g) = nat N \<and>
         length (points (uniform (Finite 2) (Finite 3)) (nat N) g) = nat N \<and>
         length (points (draw_xy uniform) (nat N) g) = nat N"
  using assms
  by (simp add: first_integral_eq second_integral_eq integral_2d_eq domain_measure_def
      scaled_mean)

text \<open>
  Two points each: \<open>4 * ((1 + 9) / 2) = 20\<close> for the first integral.
\<close>

theorem integral_estimate_is_measure_times_mean_witness:
  "(0::int) < 2 \<and>
   first_integral replay 2 [Finite 1, Finite 3] = Inr (Finite 20, []) \<and>
   points (replay (Finite 1) (Finite 5)) (nat 2) [Finite 1, Finite 3] =
     [Finite 1, Finite 3] \<and>
   fmul (Finite (domain_measure [(1, 5)]))
     (fdiv (fsum (map (\<lambda>x. fpow x 2) [Finite 1, Finite 3])) (float_of_int 2)) = Finite 20 \<and>
   second_integral replay 2 [Finite 2, Finite 2.5] =
     Inr (Finite ((10.25 + 8 * sin 2 + 10 * sin 2.5) / 2), []) \<and>
   integral_2d replay 2 [Finite 4, Finite 0, Finite 5, Finite 0.5] =
     Inr (Finite (cos 256 + cos 625 + 3 / 4), [])"
proof -
  have pos: "(0::int) < 2" by simp
  have pts: "points (replay (Finite 1) (Finite 5)) (nat 2) [Finite 1, Finite 3] =
      [Finite 1, Finite 3]"
    by (simp add: replay_def eval_nat_numeral)
  have gen: "generator_after (replay (Finite 1) (Finite 5)) (nat 2) [Finite 1, Finite 3] = []"
    by (simp add: replay_def eval_nat_numeral)
  have val: "fmul (Finite (domain_measure [(1, 5)]))
     (fdiv (fsum (map (\<lambda>x. fpow x 2) [Finite 1, Finite 3])) (float_of_int 2)) = Finite 20"
    by (simp add: domain_measure_def fsum_def float_of_int_def)
  have second: "second_integral replay 2 [Finite 2, Finite 2.5] =
      Inr (Finite ((10.25 + 8 * sin 2 + 10 * sin 2.5) / 2), [])"
    by (simp add: integration_defs eval_nat_numeral upt_rec)
  have third: "integral_2d replay 2 [Finite 4, Finite 0, Finite 5, Finite 0.5] =
     Inr (Finite (cos 256 + cos 625 + 3 / 4), [])"
    by (simp add: integration_defs eval_nat_numeral upt_rec)
  from integral_estimate_is_measure_times_mean [OF pos, of replay "[Finite 1, Finite 3]",
      THEN conjunct1]
  have "first_integral replay 2 [Finite 1, Finite 3] = Inr (Finite 20, [])"
    unfolding pts gen val .
  with pos pts val second third show ?thesis by simp
qed

section \<open>The denominator\<close>

text \<open>
  Claim C10. For \<open>N > 0\<close> the failure probability is the count over all \<open>N\<close> trials
  divided by \<open>float(N)\<close>, and each integral estimate is \<open>measure * accum\<close> over all
  \<open>N\<close> points divided by \<open>float(N)\<close>, whatever the generator returns: infinite and
  \<open>NaN\<close> values stay in the lists, which have \<open>N\<close> entries, and the divisor is \<open>N\<close>.
\<close>

theorem denominator_is_N:
  assumes "0 < N"
  shows "failure_probability_experiment norm_rvs N g =
           Inr (fdiv (float_of_int (count_failures (trial_outputs norm_rvs (nat N) g)))
                  (float_of_int N),
                rng_after norm_rvs (nat N) g) \<and>
         length (trial_outputs norm_rvs (nat N) g) = nat N \<and>
         first_integral uniform N h =
           Inr (fdiv (fmul (Finite 4)
                        (fsum (map (\<lambda>x. fpow x 2)
                           (points (uniform (Finite 1) (Finite 5)) (nat N) h))))
                  (float_of_int N),
                generator_after (uniform (Finite 1) (Finite 5)) (nat N) h) \<and>
         length (points (uniform (Finite 1) (Finite 5)) (nat N) h) = nat N \<and>
         second_integral uniform N h =
           Inr (fdiv (fmul (Finite 1)
                        (fsum (map (\<lambda>x. fadd (fpow x 2) (fmul (fmul (Finite 4) x) (fsin x)))
                           (points (uniform (Finite 2) (Finite 3)) (nat N) h))))
                  (float_of_int N),
                generator_after (uniform (Finite 2) (Finite 3)) (nat N) h) \<and>
         length (points (uniform (Finite 2) (Finite 3)) (nat N) h) = nat N \<and>
         integral_2d uniform N h =
           Inr (fdiv (fmul (Finite 2)
                        (fsum (map (\<lambda>(x, y). fadd (fcos (fpow x 4))
                                                (fmul (fmul (Finite 3) y) y))
                           (points (draw_xy uniform) (nat N) h))))
                  (float_of_int N),
                generator_after (draw_xy uniform) (nat N) h) \<and>
         length (points (draw_xy uniform) (nat N) h) = nat N"
  using assms
  by (simp add: experiment_eq first_integral_eq second_integral_eq integral_2d_eq
      float_of_int_def)

text \<open>
  Two trials, the first with the stress \<open>NaN\<close> (\<open>10 * 0 / 0\<close>): the probability is
  \<open>1 / 2\<close>, not \<open>1 / 1\<close>. Two points, the first infinite: the estimate is infinite.
\<close>

theorem denominator_is_N_witness:
  "(0::int) < 2 \<and>
   trial_outputs replay (nat 2)
     [Finite 0, Finite 0, Finite 200, Finite 60, Finite 2, Finite 200] =
     [(NaN, Finite 200), (Finite 300, Finite 200)] \<and>
   failure_probability_experiment replay 2
     [Finite 0, Finite 0, Finite 200, Finite 60, Finite 2, Finite 200] =
     Inr (Finite (1 / 2), []) \<and>
   points (replay (Finite 1) (Finite 5)) (nat 2) [PInf, Finite 2] = [PInf, Finite 2] \<and>
   first_integral replay 2 [PInf, Finite 2] = Inr (PInf, [])"
proof -
  let ?tape = "[Finite 0, Finite 0, Finite 200, Finite 60, Finite 2, Finite 200]"
  have pos: "(0::int) < 2" by simp
  have outs: "trial_outputs replay (nat 2) ?tape =
      [(NaN, Finite 200), (Finite 300, Finite 200)]"
    by (simp add: trial_outputs_def draws_of_run_def trial_draws_def trial_output_def
        replay_def signed_inf_def eval_nat_numeral upt_rec)
  have gen: "rng_after replay (nat 2) ?tape = []"
    by (simp add: trial_draws_def replay_def eval_nat_numeral)
  have pts: "points (replay (Finite 1) (Finite 5)) (nat 2) [PInf, Finite 2] =
      [PInf, Finite 2]"
    by (simp add: replay_def eval_nat_numeral)
  have gen': "generator_after (replay (Finite 1) (Finite 5)) (nat 2) [PInf, Finite 2] = []"
    by (simp add: replay_def eval_nat_numeral)
  note inst = denominator_is_N [OF pos, of replay ?tape replay "[PInf, Finite 2]"]
  from inst have "failure_probability_experiment replay 2 ?tape = Inr (Finite (1 / 2), [])"
    unfolding outs gen by (simp add: count_failures_def float_of_int_def)
  moreover from inst have "first_integral replay 2 [PInf, Finite 2] = Inr (PInf, [])"
    unfolding pts gen' by (simp add: fsum_def float_of_int_def signed_inf_def)
  ultimately show ?thesis using pos outs pts by simp
qed

section \<open>Zero trials and one trial\<close>

text \<open>
  Claim C8, as the code has it. With \<open>N = 0\<close> the simulation cell ends normally
  without a draw, and the probability cell then raises Python's
  \<^verbatim>\<open>ZeroDivisionError\<close>; the integration cells raise it too. With \<open>N = 1\<close> the
  run raises nothing and reports \<open>0\<close> or \<open>1\<close>.
\<close>

theorem zero_trials_zero_division_one_trial_runs:
  "simulation_cell norm_rvs 0 g =
     Inr \<lparr>failures = 0, stresses = [], yield_strengths = [], rng = g\<rparr> \<and>
   failure_probability_experiment norm_rvs 0 g = Inl ZeroDivisionError \<and>
   first_integral uniform 0 h = Inl ZeroDivisionError \<and>
   second_integral uniform 0 h = Inl ZeroDivisionError \<and>
   integral_2d uniform 0 h = Inl ZeroDivisionError \<and>
   (\<exists>p. failure_probability_experiment norm_rvs 1 g =
          Inr (Finite p, rng_after norm_rvs 1 g) \<and> (p = 0 \<or> p = 1))"
proof -
  have c: "count_failures (trial_outputs norm_rvs 1 g) = 0 \<or>
      count_failures (trial_outputs norm_rvs 1 g) = 1"
    using count_failures_bounds [of "trial_outputs norm_rvs 1 g"] by auto
  have "failure_probability_experiment norm_rvs 1 g =
      Inr (Finite (real_of_int (count_failures (trial_outputs norm_rvs 1 g))),
           rng_after norm_rvs 1 g)"
    using experiment_eq [of 1 norm_rvs g] by simp
  with c have one: "\<exists>p. failure_probability_experiment norm_rvs 1 g =
      Inr (Finite p, rng_after norm_rvs 1 g) \<and> (p = 0 \<or> p = 1)"
    by auto
  have zero: "simulation_cell norm_rvs 0 g =
      Inr \<lparr>failures = 0, stresses = [], yield_strengths = [], rng = g\<rparr>"
    "failure_probability_experiment norm_rvs 0 g = Inl ZeroDivisionError"
    by (simp_all add: hoop_defs)
  have int0: "first_integral uniform 0 h = Inl ZeroDivisionError"
    "second_integral uniform 0 h = Inl ZeroDivisionError"
    "integral_2d uniform 0 h = Inl ZeroDivisionError"
    by (simp_all add: integration_defs)
  from zero int0 one show ?thesis by simp
qed

theorem zero_trials_zero_division_one_trial_runs_witness:
  "failure_probability_experiment replay 0 [Finite 60, Finite 4, Finite 200] =
     Inl ZeroDivisionError \<and>
   first_integral replay 0 [Finite 2] = Inl ZeroDivisionError \<and>
   failure_probability_experiment replay 1 [Finite 60, Finite 4, Finite 200] =
     Inr (Finite 0, [])"
proof -
  have run: "failure_probability_experiment replay 1 [Finite 60, Finite 4, Finite 200] =
     Inr (Finite 0, [])"
    by (simp add: hoop_defs)
  from zero_trials_zero_division_one_trial_runs
      [of replay "[Finite 60, Finite 4, Finite 200]" replay "[Finite 2]"] run
  show ?thesis by simp
qed

text \<open>
  Claim C8, as stated, fails at \<open>N = 0\<close>: the simulation cell completes, and the error
  of the run is \<^verbatim>\<open>ZeroDivisionError\<close>, raised by the division of the probability
  cell, not \<open>InvalidParameter\<close>.
\<close>

theorem zero_trials_not_invalid_parameter:
  "simulation_cell replay 0 [Finite 60, Finite 4, Finite 200] =
     Inr \<lparr>failures = 0, stresses = [], yield_strengths = [],
          rng = [Finite 60, Finite 4, Finite 200]\<rparr> \<and>
   failure_probability_experiment replay 0 [Finite 60, Finite 4, Finite 200] =
     Inl ZeroDivisionError \<and>
   failure_probability_experiment replay 0 [Finite 60, Finite 4, Finite 200] \<noteq>
     Inl InvalidParameter"
  by (simp add: hoop_defs)

end
